theory Spec2Isabelle
  imports Main "HOL-Library.Word"
begin

section \<open>Values, errors and request bodies\<close>

text \<open>
  The handlers of \<^verbatim>\<open>app/api/user/views.py\<close> are coroutines that call the user service, the
  OTP generator, the JWT helpers and the task functions, and hand dictionaries back to the
  framework. A \<^verbatim>\<open>uuid.UUID\<close> is a 128-bit value.
\<close>

type_synonym uuid = "128 word"

text \<open>The Python values that the handlers build, pass on or return.\<close>

datatype pyval =
    PNone
  | PBool bool
  | PStr string
  | PUUID uuid
  | PDatetime int
  | PTuple "pyval list"
  | PDict "(string \<times> pyval) list"

text \<open>
  Exceptions are values. The first four are the error kinds of the collaborators; \<open>KeyError\<close> is
  what subscripting a dictionary with a missing key raises; \<open>OtherError\<close> stands for any other
  exception a collaborator lets escape.
\<close>

datatype error =
    NotFound
  | Unauthorized
  | InvalidCredential
  | TokenInvalid
  | KeyError string
  | OtherError string

text \<open>
  Modelled from the spec: the user object that \<^verbatim>\<open>find_by_email\<close> returns is declared outside
  the sources; the handlers read only its \<^verbatim>\<open>id\<close>, the "user identifier" the email
  resolves to.
\<close>

record user =
  id_user :: uuid

text \<open>
  Modelled from the spec: the request bodies \<^verbatim>\<open>OTPVerify\<close> ("{email, otp}"),
  \<^verbatim>\<open>ResetPassword\<close> ("{token, new_password}") and \<^verbatim>\<open>UsernameChange\<close>
  ("{new_username}") are declared in \<^verbatim>\<open>app/api/user/schemas.py\<close>, which is not among the
  sources. A one-time code is a string, as the token \<^verbatim>\<open>"000000"\<close> of the spec's scenario.
\<close>

record OTPVerify =
  email :: string
  otp :: string

record ResetPassword =
  token :: string
  new_password :: string

record UsernameChange =
  new_username :: string

text \<open>An item of the username-update sequence is a dictionary, read with \<^verbatim>\<open>item["..."]\<close>.\<close>

type_synonym item = "(string \<times> pyval) list"

definition getitem :: "item \<Rightarrow> string \<Rightarrow> error + pyval" where
  "getitem d k = (case map_of d k of None \<Rightarrow> Inl (KeyError k) | Some v \<Rightarrow> Inr v)"

section \<open>Collaborators, background tasks and the request state\<close>

text \<open>
  \<^verbatim>\<open>background_tasks.add_task(f, **kwargs)\<close> stores the function and its arguments; nothing of
  \<open>f\<close> runs at that point.
\<close>

datatype task = Task_send_mail pyval string "string list"

text \<open>One entry of the trace per call that a handler makes on a collaborator.\<close>

datatype event =
    Call_find_by_email string
  | Call_get_otp uuid
  | Call_check_otp uuid string
  | Call_forgot_password string
  | Call_password_reset string ResetPassword
  | Call_refreshJWT string
  | Call_decode_token string
  | Call_update_username uuid string
  | Yielded item
  | Call_update_username_in_social pyval pyval
  | Call_send_mail pyval string "string list"

text \<open>
  Modelled from the spec: \<^verbatim>\<open>UserService.update_username\<close>, absent from the sources, is an
  asynchronous generator, "a lazy sequence of per-record update results (one per related record
  needing propagation)". Each resumption reads the storage session \<open>'w\<close> and either yields an
  item, stops, or raises, leaving a new session; every run of it ends.
\<close>

datatype 'w agen = AGen "'w \<Rightarrow> 'w astep"
and 'w astep =
    AYield item "'w agen" 'w
  | AStop 'w
  | ARaise error 'w

text \<open>
  The collaborators are not part of the handlers' module, so they are parameters: each takes its
  arguments and the storage session and returns a value or an exception, and the session it
  leaves. \<^verbatim>\<open>OTPGenerator(user_id=..., session=...)\<close> only stores its arguments, so the user
  identifier is an argument of the two OTP operations.
\<close>

record 'w collaborators =
  UserService_find_by_email :: "string \<Rightarrow> 'w \<Rightarrow> (error + user) \<times> 'w"
  UserService_update_username :: "uuid \<Rightarrow> string \<Rightarrow> 'w agen"
  UserService_decode_token :: "string \<Rightarrow> 'w \<Rightarrow> (error + uuid) \<times> 'w"
  UserService_forgot_password :: "string \<Rightarrow> 'w \<Rightarrow> (error + pyval) \<times> 'w"
  UserService_password_reset :: "string \<Rightarrow> ResetPassword \<Rightarrow> 'w \<Rightarrow> (error + pyval) \<times> 'w"
  OTPGenerator_get_otp :: "uuid \<Rightarrow> 'w \<Rightarrow> (error + string) \<times> 'w"
  OTPGenerator_check_otp :: "uuid \<Rightarrow> string \<Rightarrow> 'w \<Rightarrow> (error + string \<times> bool) \<times> 'w"
  refreshJWT :: "string \<Rightarrow> 'w \<Rightarrow> (error + string) \<times> 'w"
  update_username_in_social :: "pyval \<Rightarrow> pyval \<Rightarrow> 'w \<Rightarrow> (error + unit) \<times> 'w"
  send_mail :: "pyval \<Rightarrow> string \<Rightarrow> string list \<Rightarrow> 'w \<Rightarrow> (error + unit) \<times> 'w"

text \<open>
  What a request carries: the storage session, the calls made so far, and the framework's
  \<^verbatim>\<open>BackgroundTasks\<close> list.
\<close>

record 'w state =
  session :: 'w
  trace :: "event list"
  background_tasks :: "task list"

type_synonym ('w, 'a) outcome = "(error + 'a) \<times> 'w state"

text \<open>Calling a collaborator: it runs on the session, and the call is appended to the trace.\<close>

definition invoke :: "event \<Rightarrow> ('w \<Rightarrow> (error + 'a) \<times> 'w) \<Rightarrow> 'w state \<Rightarrow> ('w, 'a) outcome" where
  "invoke ev f st =
     (case f (session st) of (r, w') \<Rightarrow> (r, st\<lparr>session := w', trace := trace st @ [ev]\<rparr>))"

text \<open>Sequencing: an exception ends the handler with the state reached so far.\<close>

definition and_then :: "('w, 'a) outcome \<Rightarrow> ('a \<Rightarrow> 'w state \<Rightarrow> ('w, 'b) outcome) \<Rightarrow> ('w, 'b) outcome" where
  "and_then m k = (case m of (Inl e, st) \<Rightarrow> (Inl e, st) | (Inr a, st) \<Rightarrow> k a st)"

definition add_task :: "task \<Rightarrow> 'w state \<Rightarrow> 'w state" where
  "add_task t st = st\<lparr>background_tasks := background_tasks st @ [t]\<rparr>"

definition find_by_email :: "'w collaborators \<Rightarrow> string \<Rightarrow> 'w state \<Rightarrow> ('w, user) outcome" where
  "find_by_email env e = invoke (Call_find_by_email e) (UserService_find_by_email env e)"

definition otp_gen_get_otp :: "'w collaborators \<Rightarrow> uuid \<Rightarrow> 'w state \<Rightarrow> ('w, string) outcome" where
  "otp_gen_get_otp env u = invoke (Call_get_otp u) (OTPGenerator_get_otp env u)"

definition otp_gen_check_otp ::
    "'w collaborators \<Rightarrow> uuid \<Rightarrow> string \<Rightarrow> 'w state \<Rightarrow> ('w, string \<times> bool) outcome" where
  "otp_gen_check_otp env u c = invoke (Call_check_otp u c) (OTPGenerator_check_otp env u c)"

definition forgot_password :: "'w collaborators \<Rightarrow> string \<Rightarrow> 'w state \<Rightarrow> ('w, pyval) outcome" where
  "forgot_password env e = invoke (Call_forgot_password e) (UserService_forgot_password env e)"

definition password_reset ::
    "'w collaborators \<Rightarrow> string \<Rightarrow> ResetPassword \<Rightarrow> 'w state \<Rightarrow> ('w, pyval) outcome" where
  "password_reset env e p = invoke (Call_password_reset e p) (UserService_password_reset env e p)"

definition call_refreshJWT :: "'w collaborators \<Rightarrow> string \<Rightarrow> 'w state \<Rightarrow> ('w, string) outcome" where
  "call_refreshJWT env r = invoke (Call_refreshJWT r) (refreshJWT env r)"

definition decode_token :: "'w collaborators \<Rightarrow> string \<Rightarrow> 'w state \<Rightarrow> ('w, uuid) outcome" where
  "decode_token env t = invoke (Call_decode_token t) (UserService_decode_token env t)"

definition call_update_username_in_social ::
    "'w collaborators \<Rightarrow> pyval \<Rightarrow> pyval \<Rightarrow> 'w state \<Rightarrow> ('w, unit) outcome" where
  "call_update_username_in_social env u n =
     invoke (Call_update_username_in_social u n) (update_username_in_social env u n)"

text \<open>Subscripting inside a handler: the value, or \<open>KeyError\<close>, with the state untouched.\<close>

definition subscript :: "item \<Rightarrow> string \<Rightarrow> 'w state \<Rightarrow> ('w, pyval) outcome" where
  "subscript d k st = (getitem d k, st)"

section \<open>The handlers\<close>

subsection \<open>PATCH /change/username\<close>

text \<open>
  \<^verbatim>\<open>async for item in user_service.update_username(...)\<close>: the generator is resumed; on an item
  the body evaluates \<^verbatim>\<open>item["user_id"]\<close>, then \<^verbatim>\<open>item["username"]\<close>, awaits
  \<^verbatim>\<open>update_username_in_social\<close> and resumes the generator again.
\<close>

primrec update_username_loop :: "'w collaborators \<Rightarrow> 'w agen \<Rightarrow> 'w state \<Rightarrow> ('w, unit) outcome"
and update_username_body :: "'w collaborators \<Rightarrow> 'w astep \<Rightarrow> 'w state \<Rightarrow> ('w, unit) outcome" where
  "update_username_loop env (AGen resume) st = update_username_body env (resume (session st)) st"
| "update_username_body env (AYield it g w') st =
     and_then (subscript it ''user_id'' (st\<lparr>session := w', trace := trace st @ [Yielded it]\<rparr>))
       (\<lambda>uid st1. and_then (subscript it ''username'' st1)
         (\<lambda>uname st2. and_then (call_update_username_in_social env uid uname st2)
           (\<lambda>_ st3. update_username_loop env g st3)))"
| "update_username_body env (AStop w') st = (Inr (), st\<lparr>session := w'\<rparr>)"
| "update_username_body env (ARaise e w') st = (Inl e, st\<lparr>session := w'\<rparr>)"

text \<open>
  The handler proper. \<open>user_id\<close> is what the bearer-token dependency resolved. Calling the
  generator function runs none of its body; the loop drives it.
\<close>

definition update_username ::
    "'w collaborators \<Rightarrow> UsernameChange \<Rightarrow> uuid \<Rightarrow> 'w state \<Rightarrow> ('w, pyval) outcome" where
  "update_username env user_data user_id st =
     and_then
       (update_username_loop env
          (UserService_update_username env user_id (new_username user_data))
          (st\<lparr>trace := trace st @ [Call_update_username user_id (new_username user_data)]\<rparr>))
       (\<lambda>_ st1.
          (Inr (PDict [(''detail'', PStr (''Username updated to '' @ new_username user_data)),
                       (''status'', PBool True)]), st1))"

subsection \<open>GET /otp/send/{email}\<close>

definition get_otp :: "'w collaborators \<Rightarrow> string \<Rightarrow> 'w state \<Rightarrow> ('w, pyval) outcome" where
  "get_otp env email_addr st =
     and_then (find_by_email env email_addr st)
       (\<lambda>user st1. and_then (otp_gen_get_otp env (id_user user) st1)
         (\<lambda>otp_code st2.
            let subject = PStr ''OTP'';
                message = ''Complete your verification process with this OTP: '' @ otp_code;
                st3 = add_task (Task_send_mail subject message [email_addr]) st2
            in (Inr (PDict [(''detail'', PStr ''OTP has been sent to your email''),
                            (''status'', PBool True)]), st3)))"

subsection \<open>POST /otp/verify\<close>

definition verify_otp :: "'w collaborators \<Rightarrow> OTPVerify \<Rightarrow> 'w state \<Rightarrow> ('w, pyval) outcome" where
  "verify_otp env otp_data st =
     and_then (find_by_email env (email otp_data) st)
       (\<lambda>user st1. and_then (otp_gen_check_otp env (id_user user) (otp otp_data) st1)
         (\<lambda>(message, status) st2.
            (Inr (PDict [(''detail'', PStr message), (''status'', PBool status)]), st2)))"

subsection \<open>POST /refresh_token\<close>

definition refresh_token :: "'w collaborators \<Rightarrow> string \<Rightarrow> 'w state \<Rightarrow> ('w, pyval) outcome" where
  "refresh_token env refresh_token_str st =
     and_then (call_refreshJWT env refresh_token_str st)
       (\<lambda>access_token st1. and_then (decode_token env access_token st1)
         (\<lambda>user_id st2.
            (Inr (PDict [(''user_id'', PUUID user_id),
                         (''access_token'', PStr access_token),
                         (''refresh_token'', PStr refresh_token_str)]), st2)))"

subsection \<open>GET /forgot_password/{email}\<close>

text \<open>
  \<open>message\<close> is assigned twice; the triple-quoted text of the first assignment starts with a
  line break and keeps the indentation of the source.
\<close>

definition verify_email :: "'w collaborators \<Rightarrow> string \<Rightarrow> 'w state \<Rightarrow> ('w, pyval) outcome" where
  "verify_email env email_addr st =
     and_then (find_by_email env email_addr st)
       (\<lambda>user st1. and_then (otp_gen_get_otp env (id_user user) st1)
         (\<lambda>otp_code st2.
            let subject = PTuple [PStr ''Forgot Password''];
                message = [CHR 0x0A] @ ''        You requested to reset your password.''
                  @ [CHR 0x0A] @ ''        Complete the process with this token: '' @ otp_code
                  @ [CHR 0x0A, CHR 0x0A] @ ''        '';
                message = ''Complete the process with this token: '' @ otp_code;
                st3 = add_task (Task_send_mail subject message [email_addr]) st2
            in forgot_password env email_addr st3))"

subsection \<open>POST /reset_password/{email}\<close>

definition reset_password ::
    "'w collaborators \<Rightarrow> string \<Rightarrow> ResetPassword \<Rightarrow> 'w state \<Rightarrow> ('w, pyval) outcome" where
  "reset_password env email_addr password st =
     and_then (find_by_email env email_addr st)
       (\<lambda>user st1. and_then (otp_gen_check_otp env (id_user user) (token password) st1)
         (\<lambda>(message, status) st2.
            if \<not> status
            then (Inr (PDict [(''detail'', PStr message), (''status'', PBool status)]), st2)
            else password_reset env email_addr password st2))"

text \<open>A request starts with an empty trace and no task scheduled.\<close>

definition request :: "'w \<Rightarrow> 'w state" where
  "request w = \<lparr>session = w, trace = [], background_tasks = []\<rparr>"


text \<open>
  What a scheduled task does once the framework runs it, after the response: the keyword
  arguments stored by \<^verbatim>\<open>add_task\<close> are passed to \<^verbatim>\<open>send_mail\<close>.
\<close>

fun run_task :: "'w collaborators \<Rightarrow> task \<Rightarrow> 'w state \<Rightarrow> ('w, unit) outcome" where
  "run_task env (Task_send_mail subject message recipient_list) st =
     invoke (Call_send_mail subject message recipient_list)
       (send_mail env subject message recipient_list) st"

section \<open>Collaborators as the specification describes them\<close>

text \<open>
  Modelled from the spec: the user service and the OTP generator are absent from the sources.
  The store keeps the accounts (email, identifier, password) and, per user identifier, the
  pending one-time code with its expiry flag ("OTP: transient code value associated 1:1 with a
  user id, stored in an external session/store").
\<close>

record account =
  account_email :: string
  account_id :: uuid
  account_password :: string

record otp_entry =
  code :: string
  expired :: bool

record store =
  accounts :: "account list"
  otps :: "(uuid \<times> otp_entry) list"

text \<open>
  Modelled from the spec: \<^verbatim>\<open>UserService.find_by_email\<close> resolves "the email to a user
  identifier (fails with NotFound if no such user exists)".
\<close>

definition spec_find_by_email :: "string \<Rightarrow> store \<Rightarrow> (error + user) \<times> store" where
  "spec_find_by_email e w =
     (case find (\<lambda>a. account_email a = e) (accounts w) of
        None \<Rightarrow> (Inl NotFound, w)
      | Some a \<Rightarrow> (Inr \<lparr>id_user = account_id a\<rparr>, w))"

text \<open>
  Modelled from the spec: a candidate is "a correct, unexpired code" for a user when the store
  holds a code for that user, the candidate equals it and it has not expired.
\<close>

definition correct_unexpired :: "store \<Rightarrow> uuid \<Rightarrow> string \<Rightarrow> bool" where
  "correct_unexpired w u candidate =
     (case map_of (otps w) u of
        None \<Rightarrow> False
      | Some entry \<Rightarrow> code entry = candidate \<and> \<not> expired entry)"

text \<open>
  Modelled from the spec: \<^verbatim>\<open>OTPGenerator.check_otp\<close> "returns a tuple of (human-readable
  message, boolean success flag)": the flag is true for a correct, unexpired code and false
  otherwise, a mismatch being "surfaced as a boolean+message pair rather than a thrown error".
  The spec fixes no message text, so the two messages are parameters.
\<close>

definition spec_check_otp ::
    "string \<Rightarrow> string \<Rightarrow> uuid \<Rightarrow> string \<Rightarrow> store \<Rightarrow> (error + string \<times> bool) \<times> store" where
  "spec_check_otp ok_msg bad_msg u candidate w =
     (if correct_unexpired w u candidate
      then (Inr (ok_msg, True), w)
      else (Inr (bad_msg, False), w))"

text \<open>
  Modelled from the spec: \<^verbatim>\<open>OTPGenerator.get_otp\<close> hands out the code for the user; it
  "may create or reuse a pending code". Here a pending unexpired code is reused and \<open>fresh\<close> is
  stored otherwise.
\<close>

definition spec_get_otp :: "string \<Rightarrow> uuid \<Rightarrow> store \<Rightarrow> (error + string) \<times> store" where
  "spec_get_otp fresh u w =
     (case map_of (otps w) u of
        Some entry \<Rightarrow>
          if \<not> expired entry then (Inr (code entry), w)
          else (Inr fresh, w\<lparr>otps := (u, \<lparr>code = fresh, expired = False\<rparr>) # otps w\<rparr>)
      | None \<Rightarrow> (Inr fresh, w\<lparr>otps := (u, \<lparr>code = fresh, expired = False\<rparr>) # otps w\<rparr>))"

text \<open>
  Modelled from the spec: \<^verbatim>\<open>UserService.password_reset\<close> is "the external service's
  password-reset operation with the email and new password payload": it stores the new password
  of the account with that email. The spec does not fix what it returns; a message body stands
  for it.
\<close>

definition spec_password_reset :: "string \<Rightarrow> ResetPassword \<Rightarrow> store \<Rightarrow> (error + pyval) \<times> store" where
  "spec_password_reset e p w =
     (Inr (PDict [(''detail'', PStr ''Password reset''), (''status'', PBool True)]),
      w\<lparr>accounts :=
          map (\<lambda>a. if account_email a = e then a\<lparr>account_password := new_password p\<rparr> else a)
            (accounts w)\<rparr>)"

text \<open>A generator that yields the items of a list, one per resumption, and leaves the session as it is.\<close>

fun yield_from :: "item list \<Rightarrow> 'w agen" where
  "yield_from [] = AGen (\<lambda>w. AStop w)"
| "yield_from (it # its) = AGen (\<lambda>w. AYield it (yield_from its) w)"

text \<open>
  A deployment on which the handlers can be run: the collaborators above, a token service that
  knows one refresh token, and a username update that yields the given items.
\<close>

definition deployment :: "item list \<Rightarrow> store collaborators" where
  "deployment its =
     \<lparr>UserService_find_by_email = spec_find_by_email,
      UserService_update_username = (\<lambda>u n. yield_from its),
      UserService_decode_token = (\<lambda>t w. if t = ''A1'' then (Inr 7, w) else (Inl TokenInvalid, w)),
      UserService_forgot_password = (\<lambda>e w.
        (Inr (PDict [(''detail'', PStr ''Reset token sent''), (''status'', PBool True)]), w)),
      UserService_password_reset = spec_password_reset,
      OTPGenerator_get_otp = spec_get_otp ''123456'',
      OTPGenerator_check_otp = spec_check_otp ''OTP verified'' ''Invalid OTP'',
      refreshJWT = (\<lambda>r w. if r = ''R1'' then (Inr ''A1'', w) else (Inl TokenInvalid, w)),
      update_username_in_social = (\<lambda>u n w. (Inr (), w)),
      send_mail = (\<lambda>s m r w. (Inr (), w))\<rparr>"

definition store0 :: store where
  "store0 =
     \<lparr>accounts = [\<lparr>account_email = ''a@b.com'', account_id = 7, account_password = ''old''\<rparr>],
      otps = [(7, \<lparr>code = ''424242'', expired = False\<rparr>)]\<rparr>"

section \<open>The schema classes\<close>

text \<open>
  \<^verbatim>\<open>app/api/example/schemas.py\<close> declares two Pydantic classes. A class is its fields in
  declaration order, each with its annotation and its default when the declaration gives one,
  and the \<^verbatim>\<open>from_attributes\<close> setting of its \<^verbatim>\<open>Config\<close>.
\<close>

datatype annotation = T_UUID | T_str | T_bool | T_datetime | T_Optional annotation

record field =
  field_name :: string
  field_annotation :: annotation
  field_default :: "pyval option"

record model_class =
  model_fields :: "field list"
  from_attributes :: bool

definition BaseModel :: model_class where
  "BaseModel = \<lparr>model_fields = [], from_attributes = False\<rparr>"

text \<open>
  \<^verbatim>\<open>class C(Base): ...\<close>: the fields of the base come first, then the class's own; a class
  without a \<^verbatim>\<open>Config\<close> of its own keeps the configuration of its base.
\<close>

definition inherit :: "model_class \<Rightarrow> field list \<Rightarrow> bool option \<Rightarrow> model_class" where
  "inherit base own config =
     \<lparr>model_fields = model_fields base @ own,
      from_attributes = (case config of None \<Rightarrow> from_attributes base | Some b \<Rightarrow> b)\<rparr>"

definition ExampleCreateSchema :: model_class where
  "ExampleCreateSchema =
     inherit BaseModel
       [\<lparr>field_name = ''id'', field_annotation = T_Optional T_UUID, field_default = Some PNone\<rparr>,
        \<lparr>field_name = ''name'', field_annotation = T_str, field_default = None\<rparr>,
        \<lparr>field_name = ''active'', field_annotation = T_bool, field_default = None\<rparr>]
       (Some True)"

definition ExampleSchema :: model_class where
  "ExampleSchema =
     inherit ExampleCreateSchema
       [\<lparr>field_name = ''created_at'', field_annotation = T_Optional T_datetime,
         field_default = None\<rparr>,
        \<lparr>field_name = ''updated_at'', field_annotation = T_Optional T_datetime,
         field_default = None\<rparr>]
       None"

datatype validation_error = ModelType | Missing string | WrongType string

text \<open>
  Whether a value already has the annotated type; \<^verbatim>\<open>Optional[T]\<close> is \<^verbatim>\<open>None\<close> or a \<open>T\<close>.
  Such a value is taken as it is.
\<close>

fun is_instance :: "annotation \<Rightarrow> pyval \<Rightarrow> bool" where
  "is_instance (T_Optional t) v = (v = PNone \<or> is_instance t v)"
| "is_instance T_UUID v = (case v of PUUID _ \<Rightarrow> True | _ \<Rightarrow> False)"
| "is_instance T_str v = (case v of PStr _ \<Rightarrow> True | _ \<Rightarrow> False)"
| "is_instance T_bool v = (case v of PBool _ \<Rightarrow> True | _ \<Rightarrow> False)"
| "is_instance T_datetime v = (case v of PDatetime _ \<Rightarrow> True | _ \<Rightarrow> False)"

text \<open>
  A value of another type is converted where the library can (in its default mode the string
  \<^verbatim>\<open>"true"\<close> becomes a boolean, a UUID string a UUID, an ISO string a datetime). The
  conversion is the library's, not this repository's, and is a parameter: \<open>coerce t v\<close> is the
  converted value, or \<open>None\<close> when \<open>v\<close> cannot be read as a \<open>t\<close>.
\<close>

type_synonym coercion = "annotation \<Rightarrow> pyval \<Rightarrow> pyval option"

definition validate_value :: "coercion \<Rightarrow> field \<Rightarrow> pyval \<Rightarrow> validation_error + pyval" where
  "validate_value coerce f v =
     (if is_instance (field_annotation f) v then Inr v
      else (case coerce (field_annotation f) v of
              None \<Rightarrow> Inl (WrongType (field_name f))
            | Some v' \<Rightarrow> Inr v'))"

text \<open>
  Field by field, in declaration order: a field that the input does not have takes its default,
  and is an error ("Field required") when the declaration gives none.
\<close>

fun validate_fields ::
    "coercion \<Rightarrow> field list \<Rightarrow> (string \<times> pyval) list
       \<Rightarrow> validation_error + (string \<times> pyval) list" where
  "validate_fields coerce [] given = Inr []"
| "validate_fields coerce (f # fs) given =
     (case (case map_of given (field_name f) of
              None \<Rightarrow> (case field_default f of
                          None \<Rightarrow> Inl (Missing (field_name f))
                        | Some d \<Rightarrow> Inr d)
            | Some v \<Rightarrow> validate_value coerce f v) of
        Inl e \<Rightarrow> Inl e
      | Inr v \<Rightarrow> (case validate_fields coerce fs given of
                    Inl e \<Rightarrow> Inl e
                  | Inr rest \<Rightarrow> Inr ((field_name f, v) # rest)))"

text \<open>
  The input of \<^verbatim>\<open>model_validate\<close>: a dictionary, or any other object, read through its
  attributes. An object that is not a dictionary is accepted only by a class with
  \<^verbatim>\<open>from_attributes = True\<close>.
\<close>

datatype source = FromDict "(string \<times> pyval) list" | FromAttributes "(string \<times> pyval) list"

fun model_validate ::
    "coercion \<Rightarrow> model_class \<Rightarrow> source \<Rightarrow> validation_error + (string \<times> pyval) list" where
  "model_validate coerce cls (FromDict d) = validate_fields coerce (model_fields cls) d"
| "model_validate coerce cls (FromAttributes obj) =
     (if from_attributes cls then validate_fields coerce (model_fields cls) obj
      else Inl ModelType)"

text \<open>The conversion that converts nothing.\<close>

definition no_coercion :: coercion where
  "no_coercion t v = None"

text \<open>An optional value as a Python value.\<close>

fun opt :: "('a \<Rightarrow> pyval) \<Rightarrow> 'a option \<Rightarrow> pyval" where
  "opt to_py None = PNone"
| "opt to_py (Some x) = to_py x"

section \<open>Reading traces and responses\<close>

text \<open>The part of a trace that a handler added to the trace it started with.\<close>

definition added :: "'w state \<Rightarrow> 'w state \<Rightarrow> event list" where
  "added st st' = drop (length (trace st)) (trace st')"

text \<open>The \<^verbatim>\<open>status\<close> entry of a response dictionary.\<close>

definition reported_status :: "pyval \<Rightarrow> pyval option" where
  "reported_status body = (case body of PDict kvs \<Rightarrow> map_of kvs ''status'' | _ \<Rightarrow> None)"

text \<open>The items a trace shows as yielded, and the propagation calls it shows, both in order.\<close>

fun yielded_items :: "event list \<Rightarrow> item list" where
  "yielded_items [] = []"
| "yielded_items (Yielded it # evs) = it # yielded_items evs"
| "yielded_items (_ # evs) = yielded_items evs"

fun social_calls :: "event list \<Rightarrow> (pyval \<times> pyval) list" where
  "social_calls [] = []"
| "social_calls (Call_update_username_in_social u n # evs) = (u, n) # social_calls evs"
| "social_calls (_ # evs) = social_calls evs"

text \<open>The \<^verbatim>\<open>user_id\<close> and \<^verbatim>\<open>username\<close> of an item, when it has both.\<close>

definition item_args :: "item \<Rightarrow> (pyval \<times> pyval) option" where
  "item_args it =
     (case (getitem it ''user_id'', getitem it ''username'') of
        (Inr u, Inr n) \<Rightarrow> Some (u, n)
      | _ \<Rightarrow> None)"

text \<open>
  What one round of the loop adds to the trace: the item, then the propagation call with the
  item's own \<^verbatim>\<open>user_id\<close> and \<^verbatim>\<open>username\<close> (no call for an item that lacks one of them).
\<close>

definition round_events :: "item \<Rightarrow> event list" where
  "round_events it =
     Yielded it #
       (case item_args it of
          None \<Rightarrow> []
        | Some (u, n) \<Rightarrow> [Call_update_username_in_social u n])"

text \<open>
  A generator that never raises and whose items all carry both keys, and a propagation
  operation that never raises.
\<close>

primrec quiet_gen :: "'w agen \<Rightarrow> bool"
and quiet_step :: "'w astep \<Rightarrow> bool" where
  "quiet_gen (AGen resume) = (\<forall>w. quiet_step (resume w))"
| "quiet_step (AYield it g w') = (item_args it \<noteq> None \<and> quiet_gen g)"
| "quiet_step (AStop w') = True"
| "quiet_step (ARaise e w') = False"

definition quiet_social :: "'w collaborators \<Rightarrow> bool" where
  "quiet_social env = (\<forall>u n w. \<exists>w'. update_username_in_social env u n w = (Inr (), w'))"

text \<open>
  The update sequence of the service run as the specification words it: "for each produced
  item, synchronously propagate the username change to an external social collaborator before
  returning". The sequence is resumed on the session; an item it yields is propagated, with the
  item's \<^verbatim>\<open>user_id\<close> and \<^verbatim>\<open>username\<close>, before the sequence is resumed on the session the
  propagation left. The run ends when the sequence stops, or with the first exception: of the
  sequence, of an item without one of the two keys, or of a propagation. Its result is the items
  the sequence yielded, how the run ended, and the session it left. Nothing here refers to the
  handler, its state or its trace.
\<close>

primrec sequence_run ::
    "'w collaborators \<Rightarrow> 'w agen \<Rightarrow> 'w \<Rightarrow> item list \<times> (error + unit) \<times> 'w"
and sequence_step ::
    "'w collaborators \<Rightarrow> 'w astep \<Rightarrow> item list \<times> (error + unit) \<times> 'w" where
  "sequence_run env (AGen resume) w = sequence_step env (resume w)"
| "sequence_step env (AStop w') = ([], Inr (), w')"
| "sequence_step env (ARaise e w') = ([], Inl e, w')"
| "sequence_step env (AYield it g w') =
     (case getitem it ''user_id'' of
        Inl e \<Rightarrow> ([it], Inl e, w')
      | Inr u \<Rightarrow>
          (case getitem it ''username'' of
             Inl e \<Rightarrow> ([it], Inl e, w')
           | Inr n \<Rightarrow>
               (case update_username_in_social env u n w' of
                  (Inl e, w2) \<Rightarrow> ([it], Inl e, w2)
                | (Inr _, w2) \<Rightarrow>
                    (case sequence_run env g w2 of (its, r, w3) \<Rightarrow> (it # its, r, w3)))))"

text \<open>The session after propagating the items of a list one after the other.\<close>

fun propagate_all :: "'w collaborators \<Rightarrow> item list \<Rightarrow> 'w \<Rightarrow> 'w" where
  "propagate_all env [] w = w"
| "propagate_all env (it # its) w =
     (case item_args it of
        None \<Rightarrow> w
      | Some (u, n) \<Rightarrow> propagate_all env its (snd (update_username_in_social env u n w)))"

text \<open>A propagation operation that is out of reach.\<close>

definition social_down :: "pyval \<Rightarrow> pyval \<Rightarrow> store \<Rightarrow> (error + unit) \<times> store" where
  "social_down u n w = (Inl (OtherError ''social service unreachable''), w)"

text \<open>Two items for running the username update; the second lists its keys in the other order.\<close>

definition two_items :: "item list" where
  "two_items =
     [[(''user_id'', PUUID 7), (''username'', PStr ''neo'')],
      [(''username'', PStr ''neo''), (''user_id'', PUUID 9)]]"

section \<open>Unfolding the collaborator calls\<close>

lemmas call_defs = find_by_email_def otp_gen_get_otp_def otp_gen_check_otp_def
  forgot_password_def password_reset_def call_refreshJWT_def decode_token_def
  call_update_username_in_social_def

section \<open>Password reset\<close>

text \<open>
  Claim C1. When the email resolves and the OTP check returns the pair \<open>(m, s)\<close>:
  with a false flag \<open>reset_password\<close> returns that pair as its body, the calls it made are the
  lookup and the check only (no password-reset call), and the session is the one the check left,
  so the stored password is unchanged; with a true flag it is the password-reset operation of
  the service, called with the email and the password payload after the check, whose result it
  returns.
\<close>

theorem reset_password_checks_token_first:
  assumes resolve: "UserService_find_by_email env e (session st) = (Inr u, w1)"
      and check: "OTPGenerator_check_otp env (id_user u) (token p) w1 = (Inr (m, s), w2)"
  shows "(\<not> s \<longrightarrow>
            reset_password env e p st =
              (Inr (PDict [(''detail'', PStr m), (''status'', PBool s)]),
               st\<lparr>session := w2,
                  trace := trace st @ [Call_find_by_email e, Call_check_otp (id_user u) (token p)]\<rparr>)
          \<and> (\<forall>e' p'. Call_password_reset e' p' \<notin> set (added st (snd (reset_password env e p st)))))
       \<and> (s \<longrightarrow>
            reset_password env e p st =
              password_reset env e p
                (st\<lparr>session := w2,
                    trace := trace st @ [Call_find_by_email e, Call_check_otp (id_user u) (token p)]\<rparr>))"
  using resolve check
  by (simp add: reset_password_def call_defs invoke_def and_then_def added_def)

text \<open>
  On the store with the account \<^verbatim>\<open>a@b.com\<close> and the pending code \<^verbatim>\<open>424242\<close>: the wrong
  token \<^verbatim>\<open>000000\<close> gives status false and leaves the password; the right one resets it.
\<close>

theorem reset_password_checks_token_first_witness:
  "reset_password (deployment []) ''a@b.com'' \<lparr>token = ''000000'', new_password = ''new''\<rparr>
       (request store0)
     = (Inr (PDict [(''detail'', PStr ''Invalid OTP''), (''status'', PBool False)]),
        \<lparr>session = store0,
         trace = [Call_find_by_email ''a@b.com'', Call_check_otp 7 ''000000''],
         background_tasks = []\<rparr>)
   \<and> reset_password (deployment []) ''a@b.com'' \<lparr>token = ''424242'', new_password = ''new''\<rparr>
       (request store0)
     = (Inr (PDict [(''detail'', PStr ''Password reset''), (''status'', PBool True)]),
        \<lparr>session = store0\<lparr>accounts :=
           [\<lparr>account_email = ''a@b.com'', account_id = 7, account_password = ''new''\<rparr>]\<rparr>,
         trace = [Call_find_by_email ''a@b.com'', Call_check_otp 7 ''424242'',
                  Call_password_reset ''a@b.com'' \<lparr>token = ''424242'', new_password = ''new''\<rparr>],
         background_tasks = []\<rparr>)"
proof -
  have r: "UserService_find_by_email (deployment []) ''a@b.com'' (session (request store0))
             = (Inr \<lparr>id_user = 7\<rparr>, store0)"
    by (simp add: deployment_def spec_find_by_email_def request_def store0_def)
  have c0: "OTPGenerator_check_otp (deployment []) (id_user \<lparr>id_user = 7\<rparr>)
              (token \<lparr>token = ''000000'', new_password = ''new''\<rparr>) store0
             = (Inr (''Invalid OTP'', False), store0)"
    by (simp add: deployment_def spec_check_otp_def correct_unexpired_def store0_def)
  have c1: "OTPGenerator_check_otp (deployment []) (id_user \<lparr>id_user = 7\<rparr>)
              (token \<lparr>token = ''424242'', new_password = ''new''\<rparr>) store0
             = (Inr (''OTP verified'', True), store0)"
    by (simp add: deployment_def spec_check_otp_def correct_unexpired_def store0_def)
  have p: "UserService_password_reset (deployment []) = spec_password_reset"
    by (simp add: deployment_def)
  show ?thesis
    using reset_password_checks_token_first [OF r c0] reset_password_checks_token_first [OF r c1]
    by (simp add: request_def password_reset_def invoke_def p spec_password_reset_def store0_def)
qed

text \<open>
  Claim C6. The token check at the head of \<open>reset_password\<close> is the \<open>verify_otp\<close> flow on the
  same email and code: \<open>reset_password\<close> ends where \<open>verify_otp\<close> ends, with the same exception
  or the same body and the same state, exactly when \<open>verify_otp\<close> raises or reports status
  false; otherwise it goes on to the password reset from the state \<open>verify_otp\<close> leaves.
\<close>

theorem reset_password_extends_verify_otp:
  "reset_password env e p st =
     (case verify_otp env \<lparr>email = e, otp = token p\<rparr> st of
        (Inl err, st') \<Rightarrow> (Inl err, st')
      | (Inr body, st') \<Rightarrow>
          if reported_status body = Some (PBool False) then (Inr body, st')
          else password_reset env e p st')"
  by (simp add: reset_password_def verify_otp_def call_defs invoke_def and_then_def
      reported_status_def split: prod.splits sum.splits)

theorem reset_password_extends_verify_otp_witness:
  "reset_password (deployment []) ''a@b.com'' \<lparr>token = ''000000'', new_password = ''new''\<rparr>
       (request store0)
     = verify_otp (deployment []) \<lparr>email = ''a@b.com'', otp = ''000000''\<rparr> (request store0)"
proof -
  have v: "verify_otp (deployment []) \<lparr>email = ''a@b.com'', otp = ''000000''\<rparr> (request store0)
             = (Inr (PDict [(''detail'', PStr ''Invalid OTP''), (''status'', PBool False)]),
                \<lparr>session = store0,
                 trace = [Call_find_by_email ''a@b.com'', Call_check_otp 7 ''000000''],
                 background_tasks = []\<rparr>)"
    by (simp add: verify_otp_def call_defs invoke_def and_then_def deployment_def
        spec_find_by_email_def spec_check_otp_def correct_unexpired_def request_def store0_def)
  show ?thesis
    using reset_password_extends_verify_otp
      [of "deployment []" "''a@b.com''" "\<lparr>token = ''000000'', new_password = ''new''\<rparr>"
          "request store0"]
    by (simp add: v reported_status_def)
qed

section \<open>Token refresh\<close>

text \<open>
  Claim C2. \<open>refresh_token\<close> returns a body exactly when \<open>refreshJWT\<close> issues an access token
  \<open>a\<close> for the input \<open>r\<close> and \<open>decode_token\<close> decodes \<open>a\<close> to an identifier \<open>u\<close>; the body is
  then \<^verbatim>\<open>{user_id: u, access_token: a, refresh_token: r}\<close>: the refresh token is the input
  string itself, and the identifier is decoded from the new access token.
\<close>

theorem refresh_token_echoes_input:
  "refresh_token env r st = (Inr body, st') \<longleftrightarrow>
     (\<exists>a u w1 w2.
        refreshJWT env r (session st) = (Inr a, w1)
      \<and> UserService_decode_token env a w1 = (Inr u, w2)
      \<and> body = PDict [(''user_id'', PUUID u), (''access_token'', PStr a),
                      (''refresh_token'', PStr r)]
      \<and> st' = st\<lparr>session := w2, trace := trace st @ [Call_refreshJWT r, Call_decode_token a]\<rparr>)"
proof (cases "refreshJWT env r (session st)")
  case (Pair x w1)
  note issued = this
  show ?thesis
  proof (cases x)
    case (Inl err)
    with issued show ?thesis
      by (simp add: refresh_token_def call_defs invoke_def and_then_def)
  next
    case (Inr a)
    note token = this
    show ?thesis
    proof (cases "UserService_decode_token env a w1")
      case (Pair y w2)
      with issued token show ?thesis
        by (cases y) (auto simp add: refresh_token_def call_defs invoke_def and_then_def)
    qed
  qed
qed

theorem refresh_token_echoes_input_witness:
  "refresh_token (deployment []) ''R1'' (request store0)
     = (Inr (PDict [(''user_id'', PUUID 7), (''access_token'', PStr ''A1''),
                    (''refresh_token'', PStr ''R1'')]),
        \<lparr>session = store0, trace = [Call_refreshJWT ''R1'', Call_decode_token ''A1''],
         background_tasks = []\<rparr>)"
proof -
  have "refreshJWT (deployment []) ''R1'' (session (request store0)) = (Inr ''A1'', store0)
      \<and> UserService_decode_token (deployment []) ''A1'' store0 = (Inr 7, store0)"
    by (simp add: deployment_def request_def)
  then show ?thesis
    using refresh_token_echoes_input
      [of "deployment []" "''R1''" "request store0"
          "PDict [(''user_id'', PUUID 7), (''access_token'', PStr ''A1''),
                  (''refresh_token'', PStr ''R1'')]"
          "\<lparr>session = store0, trace = [Call_refreshJWT ''R1'', Call_decode_token ''A1''],
            background_tasks = []\<rparr>"]
    by (simp add: request_def)
qed

section \<open>OTP issuance and verification\<close>

text \<open>
  Claim C3. When the email does not resolve (\<open>find_by_email\<close> raises \<open>NotFound\<close>), both
  \<open>get_otp\<close> (GET /otp/send/{email}) and \<open>verify_email\<close> (GET /forgot_password/{email}) end with
  \<open>NotFound\<close> having made the lookup call only: no call of the generator's \<open>get_otp\<close> and no
  task added.
\<close>

theorem unknown_email_stops_before_otp:
  assumes "UserService_find_by_email env e (session st) = (Inl NotFound, w1)"
  shows "get_otp env e st
           = (Inl NotFound, st\<lparr>session := w1, trace := trace st @ [Call_find_by_email e]\<rparr>)
       \<and> verify_email env e st
           = (Inl NotFound, st\<lparr>session := w1, trace := trace st @ [Call_find_by_email e]\<rparr>)
       \<and> background_tasks (snd (get_otp env e st)) = background_tasks st
       \<and> background_tasks (snd (verify_email env e st)) = background_tasks st
       \<and> (\<forall>u. Call_get_otp u \<notin> set (added st (snd (get_otp env e st))))
       \<and> (\<forall>u. Call_get_otp u \<notin> set (added st (snd (verify_email env e st))))"
  using assms
  by (simp add: get_otp_def verify_email_def call_defs invoke_def and_then_def added_def)

theorem unknown_email_stops_before_otp_witness:
  "get_otp (deployment []) ''x@b.com'' (request store0)
     = (Inl NotFound,
        \<lparr>session = store0, trace = [Call_find_by_email ''x@b.com''], background_tasks = []\<rparr>)
   \<and> verify_email (deployment []) ''x@b.com'' (request store0)
     = (Inl NotFound,
        \<lparr>session = store0, trace = [Call_find_by_email ''x@b.com''], background_tasks = []\<rparr>)"
proof -
  have "UserService_find_by_email (deployment []) ''x@b.com'' (session (request store0))
          = (Inl NotFound, store0)"
    by (simp add: deployment_def spec_find_by_email_def request_def store0_def)
  from unknown_email_stops_before_otp [OF this] show ?thesis
    by (simp add: request_def)
qed

text \<open>
  Claim C4. \<open>verify_otp\<close> resolves the email first and raises what the lookup raises (a
  \<open>NotFound\<close> for an unknown email); otherwise it calls the generator's check with the user's
  identifier and the candidate code and returns the pair as \<^verbatim>\<open>{detail: message, status: flag}\<close>.
  With the lookup and the check of the specification, the status is true exactly for a correct
  unexpired code, and a wrong code gives a body with status false, not an exception.
\<close>

theorem verify_otp_returns_check_result:
  fixes env :: "'w collaborators" and env' :: "store collaborators"
  shows
    "(\<forall>u w1 m s w2.
        UserService_find_by_email env (email d) (session st) = (Inr u, w1)
        \<and> OTPGenerator_check_otp env (id_user u) (otp d) w1 = (Inr (m, s), w2) \<longrightarrow>
        verify_otp env d st =
          (Inr (PDict [(''detail'', PStr m), (''status'', PBool s)]),
           st\<lparr>session := w2,
              trace := trace st @ [Call_find_by_email (email d),
                                   Call_check_otp (id_user u) (otp d)]\<rparr>))
   \<and> (\<forall>err w1.
        UserService_find_by_email env (email d) (session st) = (Inl err, w1) \<longrightarrow>
        verify_otp env d st =
          (Inl err, st\<lparr>session := w1, trace := trace st @ [Call_find_by_email (email d)]\<rparr>))
   \<and> (UserService_find_by_email env' = spec_find_by_email
        \<and> OTPGenerator_check_otp env' = spec_check_otp ok_msg bad_msg \<longrightarrow>
        fst (verify_otp env' d' st') =
          (case find (\<lambda>a. account_email a = email d') (accounts (session st')) of
             None \<Rightarrow> Inl NotFound
           | Some a \<Rightarrow>
               Inr (PDict
                 [(''detail'',
                   PStr (if correct_unexpired (session st') (account_id a) (otp d')
                         then ok_msg else bad_msg)),
                  (''status'',
                   PBool (correct_unexpired (session st') (account_id a) (otp d')))])))"
proof (intro conjI allI impI)
  fix u w1 m s w2
  assume "UserService_find_by_email env (email d) (session st) = (Inr u, w1)
        \<and> OTPGenerator_check_otp env (id_user u) (otp d) w1 = (Inr (m, s), w2)"
  then show "verify_otp env d st =
          (Inr (PDict [(''detail'', PStr m), (''status'', PBool s)]),
           st\<lparr>session := w2,
              trace := trace st @ [Call_find_by_email (email d),
                                   Call_check_otp (id_user u) (otp d)]\<rparr>)"
    by (simp add: verify_otp_def call_defs invoke_def and_then_def)
next
  fix err w1
  assume "UserService_find_by_email env (email d) (session st) = (Inl err, w1)"
  then show "verify_otp env d st =
          (Inl err, st\<lparr>session := w1, trace := trace st @ [Call_find_by_email (email d)]\<rparr>)"
    by (simp add: verify_otp_def call_defs invoke_def and_then_def)
next
  assume "UserService_find_by_email env' = spec_find_by_email
        \<and> OTPGenerator_check_otp env' = spec_check_otp ok_msg bad_msg"
  then show "fst (verify_otp env' d' st') =
          (case find (\<lambda>a. account_email a = email d') (accounts (session st')) of
             None \<Rightarrow> Inl NotFound
           | Some a \<Rightarrow>
               Inr (PDict
                 [(''detail'',
                   PStr (if correct_unexpired (session st') (account_id a) (otp d')
                         then ok_msg else bad_msg)),
                  (''status'',
                   PBool (correct_unexpired (session st') (account_id a) (otp d')))]))"
    by (simp add: verify_otp_def call_defs invoke_def and_then_def spec_find_by_email_def
        spec_check_otp_def split: option.splits)
qed

text \<open>
  The right code \<^verbatim>\<open>424242\<close> gives status true, the wrong code \<^verbatim>\<open>000000\<close> status false, and
  an unknown email \<open>NotFound\<close>.
\<close>

theorem verify_otp_returns_check_result_witness:
  "fst (verify_otp (deployment []) \<lparr>email = ''a@b.com'', otp = ''424242''\<rparr> (request store0))
     = Inr (PDict [(''detail'', PStr ''OTP verified''), (''status'', PBool True)])
   \<and> fst (verify_otp (deployment []) \<lparr>email = ''a@b.com'', otp = ''000000''\<rparr> (request store0))
     = Inr (PDict [(''detail'', PStr ''Invalid OTP''), (''status'', PBool False)])
   \<and> fst (verify_otp (deployment []) \<lparr>email = ''x@b.com'', otp = ''424242''\<rparr> (request store0))
     = Inl NotFound"
proof -
  have env: "UserService_find_by_email (deployment []) = spec_find_by_email
           \<and> OTPGenerator_check_otp (deployment []) = spec_check_otp ''OTP verified'' ''Invalid OTP''"
    by (simp add: deployment_def)
  note spec = verify_otp_returns_check_result
    [where env' = "deployment []" and ok_msg = "''OTP verified''" and bad_msg = "''Invalid OTP''"
       and st' = "request store0", THEN conjunct2, THEN conjunct2, rule_format, OF env]
  show ?thesis
    using spec [of "\<lparr>email = ''a@b.com'', otp = ''424242''\<rparr>"]
      spec [of "\<lparr>email = ''a@b.com'', otp = ''000000''\<rparr>"]
      spec [of "\<lparr>email = ''x@b.com'', otp = ''424242''\<rparr>"]
    by (simp add: request_def store0_def correct_unexpired_def)
qed

text \<open>
  Claim C7. When the email resolves and the generator returns a code, \<open>get_otp\<close> returns its
  response with the mail only scheduled: the task is the last entry of the task list, the calls
  made are the lookup and the generator's \<open>get_otp\<close> (no \<open>send_mail\<close> call), and the whole outcome
  is the same whatever \<open>send_mail\<close> would do. The \<open>send_mail\<close> call happens when the task is run,
  after the handler has returned.
\<close>

theorem get_otp_schedules_mail_only:
  assumes resolve: "UserService_find_by_email env e (session st) = (Inr u, w1)"
      and issue: "OTPGenerator_get_otp env (id_user u) w1 = (Inr c, w2)"
  shows "get_otp env e st =
           (Inr (PDict [(''detail'', PStr ''OTP has been sent to your email''),
                        (''status'', PBool True)]),
            st\<lparr>session := w2,
               trace := trace st @ [Call_find_by_email e, Call_get_otp (id_user u)],
               background_tasks := background_tasks st @
                 [Task_send_mail (PStr ''OTP'')
                    (''Complete your verification process with this OTP: '' @ c) [e]]\<rparr>)
       \<and> (\<forall>f. get_otp (env\<lparr>send_mail := f\<rparr>) e st = get_otp env e st)
       \<and> (\<forall>sub msg rcp. Call_send_mail sub msg rcp \<notin> set (added st (snd (get_otp env e st))))
       \<and> (\<forall>t \<in> set (background_tasks (snd (get_otp env e st))) - set (background_tasks st).
            \<exists>sub msg rcp.
              trace (snd (run_task env t (snd (get_otp env e st))))
                = trace (snd (get_otp env e st)) @ [Call_send_mail sub msg rcp])"
proof -
  have out: "get_otp env e st =
           (Inr (PDict [(''detail'', PStr ''OTP has been sent to your email''),
                        (''status'', PBool True)]),
            st\<lparr>session := w2,
               trace := trace st @ [Call_find_by_email e, Call_get_otp (id_user u)],
               background_tasks := background_tasks st @
                 [Task_send_mail (PStr ''OTP'')
                    (''Complete your verification process with this OTP: '' @ c) [e]]\<rparr>)"
    using resolve issue
    by (simp add: get_otp_def call_defs invoke_def and_then_def add_task_def)
  have same: "\<forall>f. get_otp (env\<lparr>send_mail := f\<rparr>) e st = get_otp env e st"
    by (simp add: get_otp_def call_defs)
  have none: "\<forall>sub msg rcp. Call_send_mail sub msg rcp \<notin> set (added st (snd (get_otp env e st)))"
    by (simp add: out added_def)
  have later: "\<forall>t \<in> set (background_tasks (snd (get_otp env e st))) - set (background_tasks st).
            \<exists>sub msg rcp.
              trace (snd (run_task env t (snd (get_otp env e st))))
                = trace (snd (get_otp env e st)) @ [Call_send_mail sub msg rcp]"
    by (auto simp add: out invoke_def split: prod.splits)
  show ?thesis using out same none later by blast
qed

theorem get_otp_schedules_mail_only_witness:
  "get_otp (deployment []) ''a@b.com'' (request store0) =
     (Inr (PDict [(''detail'', PStr ''OTP has been sent to your email''), (''status'', PBool True)]),
      \<lparr>session = store0,
       trace = [Call_find_by_email ''a@b.com'', Call_get_otp 7],
       background_tasks =
         [Task_send_mail (PStr ''OTP'')
            ''Complete your verification process with this OTP: 424242'' [''a@b.com'']]\<rparr>)"
proof -
  have r: "UserService_find_by_email (deployment []) ''a@b.com'' (session (request store0))
             = (Inr \<lparr>id_user = 7\<rparr>, store0)"
    by (simp add: deployment_def spec_find_by_email_def request_def store0_def)
  have i: "OTPGenerator_get_otp (deployment []) (id_user \<lparr>id_user = 7\<rparr>) store0
             = (Inr ''424242'', store0)"
    by (simp add: deployment_def spec_get_otp_def store0_def)
  from get_otp_schedules_mail_only [OF r i, THEN conjunct1] show ?thesis
    by (simp add: request_def)
qed

text \<open>
  Claim C10. When the email resolves and the generator returns a code, the body \<open>get_otp\<close>
  returns is the constant \<^verbatim>\<open>{detail: "OTP has been sent to your email", status: true}\<close>; a
  run with any other generator that returns a code \<open>c'\<close> gives the same body, and the code
  appears in the message of the scheduled mail only.
\<close>

theorem get_otp_body_hides_code:
  assumes resolve: "UserService_find_by_email env e (session st) = (Inr u, w1)"
      and issue: "OTPGenerator_get_otp env (id_user u) w1 = (Inr c, w2)"
      and other: "g (id_user u) w1 = (Inr c', w2')"
  shows "fst (get_otp env e st) =
           Inr (PDict [(''detail'', PStr ''OTP has been sent to your email''),
                       (''status'', PBool True)])
       \<and> fst (get_otp (env\<lparr>OTPGenerator_get_otp := g\<rparr>) e st) = fst (get_otp env e st)
       \<and> background_tasks (snd (get_otp env e st)) =
           background_tasks st @
             [Task_send_mail (PStr ''OTP'')
                (''Complete your verification process with this OTP: '' @ c) [e]]
       \<and> background_tasks (snd (get_otp (env\<lparr>OTPGenerator_get_otp := g\<rparr>) e st)) =
           background_tasks st @
             [Task_send_mail (PStr ''OTP'')
                (''Complete your verification process with this OTP: '' @ c') [e]]"
  using resolve issue other
  by (simp add: get_otp_def call_defs invoke_def and_then_def add_task_def)

text \<open>The pending code \<^verbatim>\<open>424242\<close> against a generator that always answers \<^verbatim>\<open>999999\<close>.\<close>

theorem get_otp_body_hides_code_witness:
  "fst (get_otp (deployment []) ''a@b.com'' (request store0)) =
     Inr (PDict [(''detail'', PStr ''OTP has been sent to your email''), (''status'', PBool True)])
   \<and> fst (get_otp ((deployment [])\<lparr>OTPGenerator_get_otp := \<lambda>u w. (Inr ''999999'', w)\<rparr>)
            ''a@b.com'' (request store0))
       = fst (get_otp (deployment []) ''a@b.com'' (request store0))
   \<and> background_tasks (snd (get_otp (deployment []) ''a@b.com'' (request store0))) =
       [Task_send_mail (PStr ''OTP'')
          ''Complete your verification process with this OTP: 424242'' [''a@b.com'']]
   \<and> background_tasks
       (snd (get_otp ((deployment [])\<lparr>OTPGenerator_get_otp := \<lambda>u w. (Inr ''999999'', w)\<rparr>)
               ''a@b.com'' (request store0))) =
       [Task_send_mail (PStr ''OTP'')
          ''Complete your verification process with this OTP: 999999'' [''a@b.com'']]"
proof -
  have r: "UserService_find_by_email (deployment []) ''a@b.com'' (session (request store0))
             = (Inr \<lparr>id_user = 7\<rparr>, store0)"
    by (simp add: deployment_def spec_find_by_email_def request_def store0_def)
  have i: "OTPGenerator_get_otp (deployment []) (id_user \<lparr>id_user = 7\<rparr>) store0
             = (Inr ''424242'', store0)"
    by (simp add: deployment_def spec_get_otp_def store0_def)
  from get_otp_body_hides_code
    [where g = "\<lambda>u w. (Inr ''999999'', w)" and c' = "''999999''" and w2' = store0, OF r i]
  show ?thesis
    by (simp add: request_def)
qed

section \<open>Forgotten password\<close>

text \<open>
  Claim C9. When the email resolves and the generator returns the code \<open>c\<close>, \<open>verify_email\<close>
  schedules one mail task: its subject is the one-element tuple \<^verbatim>\<open>("Forgot Password",)\<close>, its
  message is the single line \<^verbatim>\<open>Complete the process with this token: \<close> followed by \<open>c\<close> (the
  multi-line text assigned first is not used), and its recipient list is the requesting address
  alone. The handler then is the service's \<open>forgot_password\<close> call.
\<close>

theorem verify_email_mail_task:
  assumes resolve: "UserService_find_by_email env e (session st) = (Inr u, w1)"
      and issue: "OTPGenerator_get_otp env (id_user u) w1 = (Inr c, w2)"
  shows "background_tasks (snd (verify_email env e st)) =
           background_tasks st @
             [Task_send_mail (PTuple [PStr ''Forgot Password''])
                (''Complete the process with this token: '' @ c) [e]]
       \<and> verify_email env e st =
           forgot_password env e
             (st\<lparr>session := w2,
                 trace := trace st @ [Call_find_by_email e, Call_get_otp (id_user u)],
                 background_tasks := background_tasks st @
                   [Task_send_mail (PTuple [PStr ''Forgot Password''])
                      (''Complete the process with this token: '' @ c) [e]]\<rparr>)"
  using resolve issue
  by (simp add: verify_email_def call_defs invoke_def and_then_def add_task_def
      split: prod.splits)

theorem verify_email_mail_task_witness:
  "background_tasks (snd (verify_email (deployment []) ''a@b.com'' (request store0))) =
     [Task_send_mail (PTuple [PStr ''Forgot Password''])
        ''Complete the process with this token: 424242'' [''a@b.com'']]"
proof -
  have r: "UserService_find_by_email (deployment []) ''a@b.com'' (session (request store0))
             = (Inr \<lparr>id_user = 7\<rparr>, store0)"
    by (simp add: deployment_def spec_find_by_email_def request_def store0_def)
  have i: "OTPGenerator_get_otp (deployment []) (id_user \<lparr>id_user = 7\<rparr>) store0
             = (Inr ''424242'', store0)"
    by (simp add: deployment_def spec_get_otp_def store0_def)
  from verify_email_mail_task [OF r i, THEN conjunct1] show ?thesis
    by (simp add: request_def)
qed

section \<open>Username update\<close>

lemma yielded_rounds: "yielded_items (concat (map round_events its)) = its"
  by (induction its) (simp_all add: round_events_def split: option.splits)

lemma social_rounds: "social_calls (concat (map round_events its)) = List.map_filter item_args its"
  by (induction its) (auto simp add: round_events_def List.map_filter_simps split: option.splits)

lemma map_filter_all:
  "(\<forall>x \<in> set xs. f x \<noteq> None) \<Longrightarrow> map Some (List.map_filter f xs) = map f xs"
  by (induction xs) (auto simp add: List.map_filter_simps)

lemma round_events_keys:
  "getitem it ''user_id'' = Inl e \<Longrightarrow> round_events it = [Yielded it]"
  "getitem it ''user_id'' = Inr u \<Longrightarrow> getitem it ''username'' = Inl e \<Longrightarrow>
     round_events it = [Yielded it]"
  "getitem it ''user_id'' = Inr u \<Longrightarrow> getitem it ''username'' = Inr n \<Longrightarrow>
     round_events it = [Yielded it, Call_update_username_in_social u n]"
  by (simp_all add: round_events_def item_args_def)

text \<open>The loop of the handler carries out the run of the sequence.\<close>

lemma loop_is_sequence_run:
  "\<forall>st. update_username_loop env g st =
     (case sequence_run env g (session st) of
        (its, r, w') \<Rightarrow>
          (r, st\<lparr>session := w', trace := trace st @ concat (map round_events its)\<rparr>))"
  "\<forall>st. update_username_body env s st =
     (case sequence_step env s of
        (its, r, w') \<Rightarrow>
          (r, st\<lparr>session := w', trace := trace st @ concat (map round_events its)\<rparr>))"
proof (induction g and s)
  case (AGen resume)
  show ?case
  proof
    fix st :: "'a state"
    have "resume (session st) \<in> range resume" by simp
    with AGen show "update_username_loop env (AGen resume) st =
     (case sequence_run env (AGen resume) (session st) of
        (its, r, w') \<Rightarrow>
          (r, st\<lparr>session := w', trace := trace st @ concat (map round_events its)\<rparr>))"
      by simp
  qed
next
  case (AYield it g w')
  show ?case
  proof
    fix st :: "'a state"
    show "update_username_body env (AYield it g w') st =
     (case sequence_step env (AYield it g w') of
        (its, r, w') \<Rightarrow>
          (r, st\<lparr>session := w', trace := trace st @ concat (map round_events its)\<rparr>))"
    proof (cases "getitem it ''user_id''")
      case (Inl e)
      then show ?thesis
        by (simp add: subscript_def and_then_def round_events_keys)
    next
      case (Inr u)
      note uid = this
      show ?thesis
      proof (cases "getitem it ''username''")
        case (Inl e)
        with uid show ?thesis
          by (simp add: subscript_def and_then_def round_events_keys)
      next
        case (Inr n)
        note uname = this
        obtain r w2 where soc: "update_username_in_social env u n w' = (r, w2)"
          by fastforce
        show ?thesis
        proof (cases r)
          case (Inl e)
          with uid uname soc show ?thesis
            by (simp add: subscript_def and_then_def call_defs invoke_def round_events_keys)
        next
          case (Inr x)
          with uid uname soc AYield show ?thesis
            by (simp add: subscript_def and_then_def call_defs invoke_def round_events_keys
                split: prod.splits)
        qed
      qed
    qed
  qed
next
  case (AStop w')
  show ?case by simp
next
  case (ARaise e w')
  show ?case by simp
qed

lemma sequence_run_ok_items:
  "\<forall>w its w'. sequence_run env g w = (its, Inr (), w') \<longrightarrow> (\<forall>it \<in> set its. item_args it \<noteq> None)"
  "\<forall>its w'. sequence_step env s = (its, Inr (), w') \<longrightarrow> (\<forall>it \<in> set its. item_args it \<noteq> None)"
proof (induction g and s)
  case (AGen resume)
  show ?case
  proof (intro allI impI)
    fix w its w' assume "sequence_run env (AGen resume) w = (its, Inr (), w')"
    moreover have "resume w \<in> range resume" by simp
    ultimately show "\<forall>it \<in> set its. item_args it \<noteq> None" using AGen by fastforce
  qed
next
  case (AYield it g w0)
  show ?case
  proof (intro allI impI)
    fix its w' assume run: "sequence_step env (AYield it g w0) = (its, Inr (), w')"
    then obtain u n w2 rest where k:
      "getitem it ''user_id'' = Inr u" "getitem it ''username'' = Inr n"
      and tl: "sequence_run env g w2 = (rest, Inr (), w')" and its: "its = it # rest"
      by (auto split: sum.splits prod.splits)
    from k have hd: "item_args it \<noteq> None" by (simp add: item_args_def)
    from AYield tl have "\<forall>it \<in> set rest. item_args it \<noteq> None" by blast
    with hd its show "\<forall>it \<in> set its. item_args it \<noteq> None" by simp
  qed
next
  case (AStop w')
  show ?case by simp
next
  case (ARaise e w')
  show ?case by simp
qed

lemma quiet_sequence_run:
  assumes "quiet_social env"
  shows "quiet_gen g \<longrightarrow> (\<forall>w. fst (snd (sequence_run env g w)) = Inr ())"
        "quiet_step s \<longrightarrow> fst (snd (sequence_step env s)) = Inr ()"
proof (induction g and s)
  case (AGen resume)
  show ?case
  proof (intro impI allI)
    fix w assume "quiet_gen (AGen resume)"
    moreover have "resume w \<in> range resume" by simp
    ultimately show "fst (snd (sequence_run env (AGen resume) w)) = Inr ()"
      using AGen by simp
  qed
next
  case (AYield it g w')
  show ?case
  proof
    assume q: "quiet_step (AYield it g w')"
    then obtain u n where "item_args it = Some (u, n)" by auto
    then have k: "getitem it ''user_id'' = Inr u" "getitem it ''username'' = Inr n"
      by (auto simp add: item_args_def split: sum.splits)
    from assms obtain w2 where s: "update_username_in_social env u n w' = (Inr (), w2)"
      unfolding quiet_social_def by blast
    from q AYield have "fst (snd (sequence_run env g w2)) = Inr ()" by simp
    then show "fst (snd (sequence_step env (AYield it g w'))) = Inr ()"
      using k s by (cases "sequence_run env g w2") simp
  qed
next
  case (AStop w')
  show ?case by simp
next
  case (ARaise e w')
  show ?case by simp
qed

lemma sequence_run_yield_from:
  assumes "quiet_social env"
  shows "(\<forall>it \<in> set its. item_args it \<noteq> None) \<Longrightarrow>
         sequence_run env (yield_from its) w = (its, Inr (), propagate_all env its w)"
proof (induction its arbitrary: w)
  case Nil
  show ?case by simp
next
  case (Cons it its)
  then obtain u n where a: "item_args it = Some (u, n)" by auto
  then have k: "getitem it ''user_id'' = Inr u" "getitem it ''username'' = Inr n"
    by (auto simp add: item_args_def split: sum.splits)
  from assms obtain w2 where s: "update_username_in_social env u n w = (Inr (), w2)"
    unfolding quiet_social_def by blast
  from Cons have "sequence_run env (yield_from its) w2 = (its, Inr (), propagate_all env its w2)"
    by simp
  then show ?case using a k s by simp
qed

text \<open>
  Claim C5, as amended. For every caller and new username, \<open>update_username\<close> carries out the
  run of the service's update sequence: its outcome, the session it leaves and the calls it adds
  to the trace are those of \<open>sequence_run\<close> on the sequence the service returns. The trace is the
  creation of the sequence followed by one round per item the sequence yielded, the item and
  then the propagation call with that item's \<^verbatim>\<open>user_id\<close> and \<^verbatim>\<open>username\<close>, each before the
  next item is requested; the session is the one the propagations and the sequence left. When
  the run ends without an exception the propagation calls are exactly one per yielded item, in
  order, and the body is \<^verbatim>\<open>{detail: "Username updated to <new_username>", status: true}\<close>;
  no item means no propagation call. For a sequence that yields the items of a list, each with
  both keys, and a propagation that does not raise, the calls are those of the list and the
  session is the one left by propagating the list. An exception of the sequence, of a missing
  key or of a propagation ends the handler with that exception instead of the success body.
\<close>

theorem update_username_runs_sequence:
  "(let n = new_username user_data;
        g = UserService_update_username env user_id n;
        out = update_username env user_data user_id st;
        success = PDict [(''detail'', PStr (''Username updated to '' @ n)),
                         (''status'', PBool True)]
    in (case sequence_run env g (session st) of
          (its, r, w') \<Rightarrow>
            out = ((case r of Inl e \<Rightarrow> Inl e | Inr _ \<Rightarrow> Inr success),
                   st\<lparr>session := w',
                      trace := trace st @ Call_update_username user_id n
                                 # concat (map round_events its)\<rparr>)
          \<and> yielded_items (added st (snd out)) = its
          \<and> social_calls (added st (snd out)) = List.map_filter item_args its
          \<and> (r = Inr () \<longrightarrow> map Some (social_calls (added st (snd out))) = map item_args its)
          \<and> (its = [] \<longrightarrow> social_calls (added st (snd out)) = []))
     \<and> (\<forall>its. g = yield_from its \<and> (\<forall>it \<in> set its. item_args it \<noteq> None) \<and> quiet_social env \<longrightarrow>
          out = (Inr success,
                 st\<lparr>session := propagate_all env its (session st),
                    trace := trace st @ Call_update_username user_id n
                               # concat (map round_events its)\<rparr>)
          \<and> map Some (social_calls (added st (snd out))) = map item_args its)
     \<and> (quiet_gen g \<and> quiet_social env \<longrightarrow> fst out = Inr success))"
proof -
  let ?n = "new_username user_data"
  let ?g = "UserService_update_username env user_id ?n"
  let ?out = "update_username env user_data user_id st"
  let ?success = "PDict [(''detail'', PStr (''Username updated to '' @ ?n)), (''status'', PBool True)]"
  let ?st0 = "st\<lparr>trace := trace st @ [Call_update_username user_id ?n]\<rparr>"
  obtain its r w' where run: "sequence_run env ?g (session st) = (its, r, w')"
    by (cases "sequence_run env ?g (session st)")
  let ?T = "Call_update_username user_id ?n # concat (map round_events its)"
  have loop: "update_username_loop env ?g ?st0 =
                (r, st\<lparr>session := w', trace := trace st @ ?T\<rparr>)"
    using loop_is_sequence_run(1) [of env ?g, THEN spec, of ?st0] run by simp
  have out: "?out = ((case r of Inl e \<Rightarrow> Inl e | Inr _ \<Rightarrow> Inr ?success),
                     st\<lparr>session := w', trace := trace st @ ?T\<rparr>)"
    by (simp add: update_username_def loop and_then_def split: sum.splits)
  have added: "added st (snd ?out) = ?T"
    by (simp add: out added_def)
  have items: "yielded_items ?T = its"
    by (simp add: yielded_rounds)
  have calls: "social_calls ?T = List.map_filter item_args its"
    by (simp add: social_rounds)
  have exact: "r = Inr () \<longrightarrow> map Some (social_calls ?T) = map item_args its"
  proof
    assume "r = Inr ()"
    with run sequence_run_ok_items(1) [of env ?g]
    have "\<forall>it \<in> set its. item_args it \<noteq> None" by blast
    then show "map Some (social_calls ?T) = map item_args its"
      by (simp add: social_rounds map_filter_all)
  qed
  have empty: "its = [] \<longrightarrow> social_calls ?T = []"
    by (simp add: List.map_filter_simps)
  have general: "case sequence_run env ?g (session st) of
          (its, r, w') \<Rightarrow>
            ?out = ((case r of Inl e \<Rightarrow> Inl e | Inr _ \<Rightarrow> Inr ?success),
                   st\<lparr>session := w',
                      trace := trace st @ Call_update_username user_id ?n
                                 # concat (map round_events its)\<rparr>)
          \<and> yielded_items (added st (snd ?out)) = its
          \<and> social_calls (added st (snd ?out)) = List.map_filter item_args its
          \<and> (r = Inr () \<longrightarrow> map Some (social_calls (added st (snd ?out))) = map item_args its)
          \<and> (its = [] \<longrightarrow> social_calls (added st (snd ?out)) = [])"
    unfolding run added using out items calls exact empty by simp
  have listed: "\<forall>its. ?g = yield_from its \<and> (\<forall>it \<in> set its. item_args it \<noteq> None)
          \<and> quiet_social env \<longrightarrow>
          ?out = (Inr ?success,
                 st\<lparr>session := propagate_all env its (session st),
                    trace := trace st @ Call_update_username user_id ?n
                               # concat (map round_events its)\<rparr>)
          \<and> map Some (social_calls (added st (snd ?out))) = map item_args its"
  proof (intro allI impI)
    fix xs
    assume h: "?g = yield_from xs \<and> (\<forall>it \<in> set xs. item_args it \<noteq> None) \<and> quiet_social env"
    then have "sequence_run env ?g (session st) = (xs, Inr (), propagate_all env xs (session st))"
      using sequence_run_yield_from [of env xs "session st"] by simp
    with run have eq: "its = xs" "r = Inr ()" "w' = propagate_all env xs (session st)"
      by auto
    show "?out = (Inr ?success,
                 st\<lparr>session := propagate_all env xs (session st),
                    trace := trace st @ Call_update_username user_id ?n
                               # concat (map round_events xs)\<rparr>)
          \<and> map Some (social_calls (added st (snd ?out))) = map item_args xs"
      using out exact eq unfolding added by simp
  qed
  have quiet: "quiet_gen ?g \<and> quiet_social env \<longrightarrow> fst ?out = Inr ?success"
  proof
    assume "quiet_gen ?g \<and> quiet_social env"
    then have "fst (snd (sequence_run env ?g (session st))) = Inr ()"
      using quiet_sequence_run(1) [of env ?g] by blast
    with run have "r = Inr ()" by simp
    then show "fst ?out = Inr ?success" by (simp add: out)
  qed
  show ?thesis
    unfolding Let_def using general listed quiet by blast
qed

text \<open>Two items give two propagation calls in their order; no item gives none.\<close>

lemma two_items_args: "\<forall>it \<in> set two_items. item_args it \<noteq> None"
  by (simp add: two_items_def item_args_def getitem_def)

theorem update_username_runs_sequence_witness:
  "update_username (deployment two_items) \<lparr>new_username = ''neo''\<rparr> 7 (request store0)
     = (Inr (PDict [(''detail'', PStr ''Username updated to neo''), (''status'', PBool True)]),
        \<lparr>session = store0,
         trace = [Call_update_username 7 ''neo'',
                  Yielded [(''user_id'', PUUID 7), (''username'', PStr ''neo'')],
                  Call_update_username_in_social (PUUID 7) (PStr ''neo''),
                  Yielded [(''username'', PStr ''neo''), (''user_id'', PUUID 9)],
                  Call_update_username_in_social (PUUID 9) (PStr ''neo'')],
         background_tasks = []\<rparr>)
   \<and> update_username (deployment []) \<lparr>new_username = ''neo''\<rparr> 7 (request store0)
     = (Inr (PDict [(''detail'', PStr ''Username updated to neo''), (''status'', PBool True)]),
        \<lparr>session = store0, trace = [Call_update_username 7 ''neo''], background_tasks = []\<rparr>)"
proof -
  have q: "quiet_social (deployment its)" for its
    by (simp add: quiet_social_def deployment_def)
  have g: "UserService_update_username (deployment its) 7
             (new_username \<lparr>new_username = ''neo''\<rparr>) = yield_from its" for its
    by (simp add: deployment_def)
  note listed = update_username_runs_sequence
    [of "\<lparr>new_username = ''neo''\<rparr>" _ 7 "request store0", unfolded Let_def,
     THEN conjunct2, THEN conjunct1, rule_format, THEN conjunct1]
  have two: "update_username (deployment two_items) \<lparr>new_username = ''neo''\<rparr> 7 (request store0)
     = (Inr (PDict [(''detail'', PStr (''Username updated to '' @ new_username \<lparr>new_username = ''neo''\<rparr>)),
                    (''status'', PBool True)]),
        (request store0)\<lparr>session := propagate_all (deployment two_items) two_items
                                      (session (request store0)),
           trace := trace (request store0) @ Call_update_username 7 (new_username \<lparr>new_username = ''neo''\<rparr>)
                      # concat (map round_events two_items)\<rparr>)"
    using listed [of "deployment two_items" two_items] g [of two_items] two_items_args
      q [of two_items] by blast
  have none: "update_username (deployment []) \<lparr>new_username = ''neo''\<rparr> 7 (request store0)
     = (Inr (PDict [(''detail'', PStr (''Username updated to '' @ new_username \<lparr>new_username = ''neo''\<rparr>)),
                    (''status'', PBool True)]),
        (request store0)\<lparr>session := propagate_all (deployment []) [] (session (request store0)),
           trace := trace (request store0) @ Call_update_username 7 (new_username \<lparr>new_username = ''neo''\<rparr>)
                      # concat (map round_events [])\<rparr>)"
    using listed [of "deployment []" "[]"] g [of "[]"] q [of "[]"] by simp
  have p: "propagate_all (deployment two_items) two_items store0 = store0"
    by (simp add: two_items_def item_args_def getitem_def deployment_def)
  have r: "concat (map round_events two_items) =
             [Yielded [(''user_id'', PUUID 7), (''username'', PStr ''neo'')],
              Call_update_username_in_social (PUUID 7) (PStr ''neo''),
              Yielded [(''username'', PStr ''neo''), (''user_id'', PUUID 9)],
              Call_update_username_in_social (PUUID 9) (PStr ''neo'')]"
    by (simp add: two_items_def round_events_def item_args_def getitem_def)
  show ?thesis
    unfolding two none by (simp add: request_def p r)
qed

text \<open>
  Claim C5 as stated ("in every case it returns the success message") fails when the social
  service is out of reach: the first propagation raises, and the handler ends with that
  exception after one propagation call.
\<close>

theorem update_username_social_down_counterexample:
  "update_username ((deployment two_items)\<lparr>update_username_in_social := social_down\<rparr>)
       \<lparr>new_username = ''neo''\<rparr> 7 (request store0)
     = (Inl (OtherError ''social service unreachable''),
        \<lparr>session = store0,
         trace = [Call_update_username 7 ''neo'',
                  Yielded [(''user_id'', PUUID 7), (''username'', PStr ''neo'')],
                  Call_update_username_in_social (PUUID 7) (PStr ''neo'')],
         background_tasks = []\<rparr>)
   \<and> fst (update_username ((deployment two_items)\<lparr>update_username_in_social := social_down\<rparr>)
            \<lparr>new_username = ''neo''\<rparr> 7 (request store0))
     \<noteq> Inr (PDict [(''detail'', PStr ''Username updated to neo''), (''status'', PBool True)])"
  by (simp add: update_username_def deployment_def two_items_def request_def and_then_def
      subscript_def getitem_def call_defs invoke_def social_down_def)

section \<open>The example schemas\<close>

lemma ExampleCreateSchema_fields:
  "model_fields ExampleCreateSchema =
     [\<lparr>field_name = ''id'', field_annotation = T_Optional T_UUID, field_default = Some PNone\<rparr>,
      \<lparr>field_name = ''name'', field_annotation = T_str, field_default = None\<rparr>,
      \<lparr>field_name = ''active'', field_annotation = T_bool, field_default = None\<rparr>]"
  by (simp add: ExampleCreateSchema_def BaseModel_def inherit_def)

lemma ExampleSchema_all_fields:
  "model_fields ExampleSchema =
     [\<lparr>field_name = ''id'', field_annotation = T_Optional T_UUID, field_default = Some PNone\<rparr>,
      \<lparr>field_name = ''name'', field_annotation = T_str, field_default = None\<rparr>,
      \<lparr>field_name = ''active'', field_annotation = T_bool, field_default = None\<rparr>,
      \<lparr>field_name = ''created_at'', field_annotation = T_Optional T_datetime,
        field_default = None\<rparr>,
      \<lparr>field_name = ''updated_at'', field_annotation = T_Optional T_datetime,
        field_default = None\<rparr>]"
  by (simp add: ExampleSchema_def ExampleCreateSchema_fields inherit_def)

lemma ExampleSchema_from_attributes: "from_attributes ExampleSchema"
  by (simp add: ExampleSchema_def ExampleCreateSchema_def inherit_def)

lemma is_instance_opt_datetime: "is_instance (T_Optional T_datetime) (opt PDatetime c)"
  by (cases c) simp_all

lemma is_instance_opt_uuid: "is_instance (T_Optional T_UUID) (opt PUUID i)"
  by (cases i) simp_all

text \<open>A field without a default that the input lacks fails the validation, wherever it stands.\<close>

lemma validate_fields_missing:
  "f \<in> set fs \<Longrightarrow> field_default f = None \<Longrightarrow> map_of given (field_name f) = None \<Longrightarrow>
     \<exists>e. validate_fields coerce fs given = Inl e"
proof (induction fs)
  case Nil
  then show ?case by simp
next
  case (Cons g gs)
  show ?case
  proof (cases "f = g")
    case True
    with Cons.prems show ?thesis by simp
  next
    case False
    with Cons obtain e where "validate_fields coerce gs given = Inl e" by auto
    then show ?thesis by (simp split: sum.splits option.splits)
  qed
qed

text \<open>
  Claim C8, as amended. The fields of \<open>ExampleSchema\<close> are those of \<open>ExampleCreateSchema\<close>,
  namely \<open>id\<close> (an optional UUID with default \<^verbatim>\<open>None\<close>), \<open>name\<close> (a string) and \<open>active\<close> (a
  boolean), followed by \<open>created_at\<close> and \<open>updated_at\<close>, both of type \<^verbatim>\<open>Optional[datetime]\<close>
  and without a default: each takes \<^verbatim>\<open>None\<close> as well as a datetime as its value, but the
  value must be given. An entity with the five attributes validates to those values, and one
  without \<open>id\<close> gets \<^verbatim>\<open>None\<close> for it; an entity without \<open>created_at\<close> or without \<open>updated_at\<close>
  is refused. \<open>ExampleSchema\<close> has \<^verbatim>\<open>from_attributes\<close> set, through its base, so an object is
  read through its attributes just as a dictionary is read through its keys. All of this holds
  whatever the library's conversion of other values is.
\<close>

theorem ExampleSchema_timestamps_required_nullable:
  "model_fields ExampleSchema =
     model_fields ExampleCreateSchema @
       [\<lparr>field_name = ''created_at'', field_annotation = T_Optional T_datetime,
         field_default = None\<rparr>,
        \<lparr>field_name = ''updated_at'', field_annotation = T_Optional T_datetime,
         field_default = None\<rparr>]
   \<and> map (\<lambda>f. (field_name f, field_annotation f, field_default f))
         (model_fields ExampleCreateSchema) =
       [(''id'', T_Optional T_UUID, Some PNone), (''name'', T_str, None),
        (''active'', T_bool, None)]
   \<and> is_instance (T_Optional T_datetime) PNone
   \<and> is_instance (T_Optional T_datetime) (PDatetime t)
   \<and> from_attributes ExampleSchema
   \<and> model_validate coerce ExampleSchema (FromAttributes entity)
       = model_validate coerce ExampleSchema (FromDict entity)
   \<and> model_validate coerce ExampleSchema
        (FromAttributes
           [(''id'', opt PUUID i), (''name'', PStr n), (''active'', PBool a),
            (''created_at'', opt PDatetime c), (''updated_at'', opt PDatetime u)])
       = Inr [(''id'', opt PUUID i), (''name'', PStr n), (''active'', PBool a),
              (''created_at'', opt PDatetime c), (''updated_at'', opt PDatetime u)]
   \<and> model_validate coerce ExampleSchema
        (FromAttributes
           [(''name'', PStr n), (''active'', PBool a),
            (''created_at'', opt PDatetime c), (''updated_at'', opt PDatetime u)])
       = Inr [(''id'', PNone), (''name'', PStr n), (''active'', PBool a),
              (''created_at'', opt PDatetime c), (''updated_at'', opt PDatetime u)]
   \<and> model_validate coerce ExampleSchema
        (FromAttributes [(''id'', opt PUUID i), (''name'', PStr n), (''active'', PBool a)])
       = Inl (Missing ''created_at'')
   \<and> model_validate coerce ExampleSchema
        (FromAttributes
           [(''id'', opt PUUID i), (''name'', PStr n), (''active'', PBool a),
            (''created_at'', opt PDatetime c)])
       = Inl (Missing ''updated_at'')
   \<and> (map_of entity ''created_at'' = None \<or> map_of entity ''updated_at'' = None \<longrightarrow>
        (\<exists>e. model_validate coerce ExampleSchema (FromAttributes entity) = Inl e)
        \<and> (\<exists>e. model_validate coerce ExampleSchema (FromDict entity) = Inl e))"
proof -
  have str: "validate_value coerce \<lparr>field_name = k, field_annotation = T_str, field_default = d\<rparr>
               (PStr n) = Inr (PStr n)" for k d
    by (simp add: validate_value_def)
  have bool: "validate_value coerce \<lparr>field_name = k, field_annotation = T_bool, field_default = d\<rparr>
               (PBool a) = Inr (PBool a)" for k d
    by (simp add: validate_value_def)
  have dt: "validate_value coerce
              \<lparr>field_name = k, field_annotation = T_Optional T_datetime, field_default = d\<rparr>
              (opt PDatetime x) = Inr (opt PDatetime x)" for k d x
    using is_instance_opt_datetime [of x] by (simp add: validate_value_def del: is_instance.simps)
  have uu: "validate_value coerce
              \<lparr>field_name = k, field_annotation = T_Optional T_UUID, field_default = d\<rparr>
              (opt PUUID x) = Inr (opt PUUID x)" for k d x
    using is_instance_opt_uuid [of x] by (simp add: validate_value_def del: is_instance.simps)
  have c1: "model_fields ExampleSchema =
     model_fields ExampleCreateSchema @
       [\<lparr>field_name = ''created_at'', field_annotation = T_Optional T_datetime,
         field_default = None\<rparr>,
        \<lparr>field_name = ''updated_at'', field_annotation = T_Optional T_datetime,
         field_default = None\<rparr>]"
    by (simp add: ExampleSchema_all_fields ExampleCreateSchema_fields)
  have c2: "map (\<lambda>f. (field_name f, field_annotation f, field_default f))
         (model_fields ExampleCreateSchema) =
       [(''id'', T_Optional T_UUID, Some PNone), (''name'', T_str, None),
        (''active'', T_bool, None)]"
    by (simp add: ExampleCreateSchema_fields)
  have c3: "is_instance (T_Optional T_datetime) PNone
          \<and> is_instance (T_Optional T_datetime) (PDatetime t)"
    by simp
  have c5: "model_validate coerce ExampleSchema (FromAttributes entity)
       = model_validate coerce ExampleSchema (FromDict entity)"
    by (simp add: ExampleSchema_from_attributes)
  have c6: "model_validate coerce ExampleSchema
        (FromAttributes
           [(''id'', opt PUUID i), (''name'', PStr n), (''active'', PBool a),
            (''created_at'', opt PDatetime c), (''updated_at'', opt PDatetime u)])
       = Inr [(''id'', opt PUUID i), (''name'', PStr n), (''active'', PBool a),
              (''created_at'', opt PDatetime c), (''updated_at'', opt PDatetime u)]"
    by (simp add: ExampleSchema_from_attributes ExampleSchema_all_fields str bool dt uu)
  have c7: "model_validate coerce ExampleSchema
        (FromAttributes
           [(''name'', PStr n), (''active'', PBool a),
            (''created_at'', opt PDatetime c), (''updated_at'', opt PDatetime u)])
       = Inr [(''id'', PNone), (''name'', PStr n), (''active'', PBool a),
              (''created_at'', opt PDatetime c), (''updated_at'', opt PDatetime u)]"
    by (simp add: ExampleSchema_from_attributes ExampleSchema_all_fields str bool dt uu)
  have c8: "model_validate coerce ExampleSchema
        (FromAttributes [(''id'', opt PUUID i), (''name'', PStr n), (''active'', PBool a)])
       = Inl (Missing ''created_at'')"
    by (simp add: ExampleSchema_from_attributes ExampleSchema_all_fields str bool dt uu)
  have c9: "model_validate coerce ExampleSchema
        (FromAttributes
           [(''id'', opt PUUID i), (''name'', PStr n), (''active'', PBool a),
            (''created_at'', opt PDatetime c)])
       = Inl (Missing ''updated_at'')"
    by (simp add: ExampleSchema_from_attributes ExampleSchema_all_fields str bool dt uu)
  have c10: "map_of entity ''created_at'' = None \<or> map_of entity ''updated_at'' = None \<longrightarrow>
        (\<exists>e. model_validate coerce ExampleSchema (FromAttributes entity) = Inl e)
        \<and> (\<exists>e. model_validate coerce ExampleSchema (FromDict entity) = Inl e)"
  proof
    assume "map_of entity ''created_at'' = None \<or> map_of entity ''updated_at'' = None"
    then have "\<exists>e. validate_fields coerce (model_fields ExampleSchema) entity = Inl e"
    proof
      assume m: "map_of entity ''created_at'' = None"
      show ?thesis
        by (rule validate_fields_missing
              [where f = "\<lparr>field_name = ''created_at'', field_annotation = T_Optional T_datetime,
                            field_default = None\<rparr>"])
           (simp_all add: ExampleSchema_all_fields m)
    next
      assume m: "map_of entity ''updated_at'' = None"
      show ?thesis
        by (rule validate_fields_missing
              [where f = "\<lparr>field_name = ''updated_at'', field_annotation = T_Optional T_datetime,
                            field_default = None\<rparr>"])
           (simp_all add: ExampleSchema_all_fields m)
    qed
    then show "(\<exists>e. model_validate coerce ExampleSchema (FromAttributes entity) = Inl e)
        \<and> (\<exists>e. model_validate coerce ExampleSchema (FromDict entity) = Inl e)"
      by (simp add: ExampleSchema_from_attributes)
  qed
  show ?thesis
    using c1 c2 c3 ExampleSchema_from_attributes c5 c6 c7 c8 c9 c10 by blast
qed

text \<open>A stored entity with both timestamps empty, one without an id, and one without \<open>updated_at\<close>.\<close>

theorem ExampleSchema_timestamps_required_nullable_witness:
  "model_validate no_coercion ExampleSchema
     (FromAttributes
        [(''id'', PUUID 7), (''name'', PStr ''demo''), (''active'', PBool True),
         (''created_at'', PNone), (''updated_at'', PNone)])
     = Inr [(''id'', PUUID 7), (''name'', PStr ''demo''), (''active'', PBool True),
            (''created_at'', PNone), (''updated_at'', PNone)]
   \<and> model_validate no_coercion ExampleSchema
     (FromAttributes
        [(''name'', PStr ''demo''), (''active'', PBool False),
         (''created_at'', PDatetime 1700000000), (''updated_at'', PDatetime 1700000060)])
     = Inr [(''id'', PNone), (''name'', PStr ''demo''), (''active'', PBool False),
            (''created_at'', PDatetime 1700000000), (''updated_at'', PDatetime 1700000060)]
   \<and> (\<exists>e. model_validate no_coercion ExampleSchema
          (FromAttributes [(''id'', PUUID 7), (''name'', PStr ''demo''),
                           (''active'', PBool True), (''created_at'', PNone)]) = Inl e)"
proof -
  note all = ExampleSchema_timestamps_required_nullable [where coerce = no_coercion]
  have full: "model_validate no_coercion ExampleSchema
     (FromAttributes
        [(''id'', opt PUUID (Some 7)), (''name'', PStr ''demo''), (''active'', PBool True),
         (''created_at'', opt PDatetime None), (''updated_at'', opt PDatetime None)])
     = Inr [(''id'', opt PUUID (Some 7)), (''name'', PStr ''demo''), (''active'', PBool True),
            (''created_at'', opt PDatetime None), (''updated_at'', opt PDatetime None)]"
    using all [where i = "Some 7" and n = "''demo''" and a = True and c = None and u = None]
    by blast
  have no_id: "model_validate no_coercion ExampleSchema
     (FromAttributes
        [(''name'', PStr ''demo''), (''active'', PBool False),
         (''created_at'', opt PDatetime (Some 1700000000)),
         (''updated_at'', opt PDatetime (Some 1700000060))])
     = Inr [(''id'', PNone), (''name'', PStr ''demo''), (''active'', PBool False),
            (''created_at'', opt PDatetime (Some 1700000000)),
            (''updated_at'', opt PDatetime (Some 1700000060))]"
    using all [where n = "''demo''" and a = False and c = "Some 1700000000"
        and u = "Some 1700000060"]
    by blast
  have lacking: "map_of [(''id'', PUUID 7), (''name'', PStr ''demo''),
                         (''active'', PBool True), (''created_at'', PNone)] ''created_at'' = None
               \<or> map_of [(''id'', PUUID 7), (''name'', PStr ''demo''),
                         (''active'', PBool True), (''created_at'', PNone)] ''updated_at'' = None"
    by simp
  have refused: "\<exists>e. model_validate no_coercion ExampleSchema
          (FromAttributes [(''id'', PUUID 7), (''name'', PStr ''demo''),
                           (''active'', PBool True), (''created_at'', PNone)]) = Inl e"
    using all [where entity = "[(''id'', PUUID 7), (''name'', PStr ''demo''),
                           (''active'', PBool True), (''created_at'', PNone)]"] lacking
    by blast
  show ?thesis using full no_id refused by simp
qed

text \<open>
  Claim C8 as stated ("a value for each may be absent") fails for an entity, or a dictionary,
  that has no timestamps: the validation stops at \<open>created_at\<close>, while a missing \<open>id\<close> is
  accepted.
\<close>

theorem ExampleSchema_missing_timestamps_counterexample:
  "model_validate no_coercion ExampleSchema
     (FromAttributes [(''id'', PUUID 7), (''name'', PStr ''demo''), (''active'', PBool True)])
     = Inl (Missing ''created_at'')
   \<and> model_validate no_coercion ExampleSchema
     (FromDict [(''id'', PUUID 7), (''name'', PStr ''demo''), (''active'', PBool True)])
     = Inl (Missing ''created_at'')
   \<and> model_validate no_coercion ExampleSchema
     (FromAttributes [(''name'', PStr ''demo''), (''active'', PBool True),
                      (''created_at'', PNone), (''updated_at'', PNone)])
     = Inr [(''id'', PNone), (''name'', PStr ''demo''), (''active'', PBool True),
            (''created_at'', PNone), (''updated_at'', PNone)]"
  by (simp add: ExampleSchema_def ExampleCreateSchema_def BaseModel_def inherit_def
      validate_value_def)

end
